theory Spec2Isabelle
  imports Main
begin

section \<open>Data model\<close>

text \<open>
  The entity types of \<^verbatim>\<open>types.ts\<close>. A JavaScript \<^verbatim>\<open>number\<close> that holds a count is
  an \<^typ>\<open>int\<close>: the code compares counts with \<^verbatim>\<open><= 0\<close> and clamps with
  \<^verbatim>\<open>Math.max(0, ...)\<close>, so negative values are values of the type. Fractions and the
  rounding of doubles beyond \<open>2^53\<close> are outside the model. A field declared with
  \<^verbatim>\<open>?\<close> is an \<^typ>\<open>'a option\<close>, \<open>None\<close> being \<^verbatim>\<open>undefined\<close>. The fields
  \<^verbatim>\<open>id\<close>, \<^verbatim>\<open>size\<close> and \<^verbatim>\<open>count\<close> carry a suffix, since HOL has these names.
\<close>

datatype BatteryCategory = PRIMARY | BUTTON_CELL | RECHARGEABLE

text \<open>
  \<^verbatim>\<open>Number(undefined)\<close> is \<^verbatim>\<open>NaN\<close>; \<^verbatim>\<open>saveBattery\<close> stores such a value in
  \<^verbatim>\<open>capacityMah\<close>, so that field ranges over integers and \<^verbatim>\<open>NaN\<close>.
\<close>

datatype jsnum = NaN | Num int

record ChargingEvent =
  id_ev :: string
  date :: string
  count_ev :: int

record Battery =
  id_bat :: string
  name :: string
  brand :: string
  size_bat :: string
  category :: BatteryCategory
  quantity :: int
  totalQuantity :: int
  minQuantity :: int
  inUse :: int
  usageAccumulator :: int
  capacityMah :: "jsnum option"
  chargeCycles :: "int option"
  lastCharged :: "string option"
  chargingHistory :: "ChargingEvent list option"

text \<open>\<^verbatim>\<open>Partial<Battery>\<close>, the type of the edit form: every field may be missing.\<close>

record PartialBattery =
  form_id :: "string option"
  form_name :: "string option"
  form_brand :: "string option"
  form_size :: "string option"
  form_category :: "BatteryCategory option"
  form_quantity :: "int option"
  form_totalQuantity :: "int option"
  form_minQuantity :: "int option"
  form_inUse :: "int option"
  form_usageAccumulator :: "int option"
  form_capacityMah :: "jsnum option"
  form_chargeCycles :: "int option"
  form_lastCharged :: "string option"
  form_chargingHistory :: "ChargingEvent list option"

record ChargeModal =
  isOpen :: bool
  batteryId :: string
  amount :: int

text \<open>
  The React state of \<^verbatim>\<open>App\<close> that the operations read and write. The copy of the
  list in \<^verbatim>\<open>localStorage\<close> is always the list itself and is not kept apart.
\<close>

record App =
  batteries :: "Battery list"
  chargeModal :: ChargeModal
  formBattery :: PartialBattery
  isModalOpen :: bool
  isEditMode :: bool

section \<open>JavaScript's \<^verbatim>\<open>||\<close> on numbers and strings\<close>

text \<open>\<^verbatim>\<open>n || d\<close> for a number \<open>n\<close>: \<open>0\<close> is falsy.\<close>

definition or_num :: "int \<Rightarrow> int \<Rightarrow> int" where
  "or_num n d = (if n = 0 then d else n)"

text \<open>\<^verbatim>\<open>x || d\<close> for \<open>x\<close> a number or \<^verbatim>\<open>undefined\<close>; also \<^verbatim>\<open>Number(x) || d\<close>.\<close>

definition or_opt_num :: "int option \<Rightarrow> int \<Rightarrow> int" where
  "or_opt_num x d = (case x of None \<Rightarrow> d | Some n \<Rightarrow> or_num n d)"

text \<open>\<^verbatim>\<open>x || d\<close> for \<open>x\<close> a string or \<^verbatim>\<open>undefined\<close>: the empty string is falsy.\<close>

definition or_str :: "string option \<Rightarrow> string \<Rightarrow> string" where
  "or_str x d = (case x of None \<Rightarrow> d | Some v \<Rightarrow> if v = [] then d else v)"

text \<open>\<^verbatim>\<open>!x\<close> for \<open>x\<close> a string or \<^verbatim>\<open>undefined\<close>.\<close>

definition falsy_str :: "string option \<Rightarrow> bool" where
  "falsy_str x = (case x of None \<Rightarrow> True | Some v \<Rightarrow> v = [])"

section \<open>The operations of \<^verbatim>\<open>App\<close>\<close>

text \<open>\<^verbatim>\<open>batteries.find(x => x.id === id)\<close>: the first battery with the id.\<close>

definition findBattery :: "string \<Rightarrow> Battery list \<Rightarrow> Battery option" where
  "findBattery i bs = find (\<lambda>x. id_bat x = i) bs"

text \<open>
  \<^verbatim>\<open>saveToStorage\<close>: replace by id in the list, or append. The request to the server
  that follows is \<open>post_batteries\<close> below; its failure is only logged and leaves the
  list as it is.
\<close>

definition saveToStorage :: "Battery \<Rightarrow> App \<Rightarrow> App" where
  "saveToStorage battery s =
     s\<lparr>batteries :=
        (case findBattery (id_bat battery) (batteries s) of
           Some _ \<Rightarrow> map (\<lambda>b. if id_bat b = id_bat battery then battery else b) (batteries s)
         | None \<Rightarrow> batteries s @ [battery])\<rparr>"

definition useBattery :: "string \<Rightarrow> App \<Rightarrow> App" where
  "useBattery i s =
     (case findBattery i (batteries s) of
        None \<Rightarrow> s
      | Some b \<Rightarrow>
          if quantity b \<le> 0 then s
          else if category b = RECHARGEABLE then
            (let nextAccumulator = usageAccumulator b + 1;
                 nextCycles = or_opt_num (chargeCycles b) 0;
                 full = (or_num (totalQuantity b) 1 \<le> nextAccumulator)
             in saveToStorage
                  (b\<lparr>quantity := quantity b - 1,
                     inUse := inUse b + 1,
                     usageAccumulator := (if full then 0 else nextAccumulator),
                     chargeCycles := Some (if full then nextCycles + 1 else nextCycles)\<rparr>) s)
          else
            saveToStorage
              (b\<lparr>quantity := quantity b - 1,
                 totalQuantity := max 0 (or_num (totalQuantity b) (quantity b) - 1)\<rparr>) s)"

text \<open>
  \<^verbatim>\<open>executeCharge\<close>. The clock reading \<^verbatim>\<open>new Date().toISOString()\<close> and the result of
  \<^verbatim>\<open>generateSafeId()\<close> are the parameters \<open>now\<close> and \<open>newId\<close>.
\<close>

definition executeCharge :: "string \<Rightarrow> string \<Rightarrow> App \<Rightarrow> App" where
  "executeCharge now newId s =
     (case findBattery (batteryId (chargeModal s)) (batteries s) of
        None \<Rightarrow> s
      | Some b \<Rightarrow>
          (let moveAmount = min (inUse b) (amount (chargeModal s));
               newHistoryEvent = \<lparr>id_ev = newId, date = now, count_ev = moveAmount\<rparr>
           in (saveToStorage
                 (b\<lparr>quantity := quantity b + moveAmount,
                    inUse := inUse b - moveAmount,
                    lastCharged := Some now,
                    chargingHistory :=
                      Some (newHistoryEvent #
                            (case chargingHistory b of None \<Rightarrow> [] | Some h \<Rightarrow> h))\<rparr>) s)
              \<lparr>chargeModal := \<lparr>isOpen = False, batteryId = [], amount = 1\<rparr>\<rparr>))"

text \<open>\<^verbatim>\<open>deleteHistoryEntry\<close>. An empty array is truthy: only a missing history returns early.\<close>

definition deleteHistoryEntry :: "string \<Rightarrow> string \<Rightarrow> App \<Rightarrow> App" where
  "deleteHistoryEntry bId eventId s =
     (case findBattery bId (batteries s) of
        None \<Rightarrow> s
      | Some b \<Rightarrow>
          (case chargingHistory b of
             None \<Rightarrow> s
           | Some h \<Rightarrow>
               saveToStorage
                 (b\<lparr>chargingHistory := Some (filter (\<lambda>e. id_ev e \<noteq> eventId) h)\<rparr>) s))"

definition closeModal :: "App \<Rightarrow> App" where
  "closeModal s =
     s\<lparr>isModalOpen := False,
       isEditMode := False,
       formBattery :=
         \<lparr>form_id = None, form_name = Some [], form_brand = Some [], form_size = Some [],
          form_category = Some PRIMARY, form_quantity = Some 1, form_totalQuantity = Some 1,
          form_minQuantity = Some 2, form_inUse = Some 0, form_usageAccumulator = Some 0,
          form_capacityMah = Some (Num 0), form_chargeCycles = Some 0,
          form_lastCharged = None, form_chargingHistory = Some []\<rparr>\<rparr>"

text \<open>
  \<^verbatim>\<open>saveBattery\<close>, the upsert of the form's payload, in two parts: the object
  literal bound to its local constant \<^verbatim>\<open>battery\<close>, and the function around it.
  \<open>now\<close> and \<open>newId\<close> are the clock reading and the generated id, used only where
  the source evaluates them.
\<close>

definition saveBattery_battery :: "string \<Rightarrow> string \<Rightarrow> PartialBattery \<Rightarrow> Battery" where
  "saveBattery_battery now newId f =
     (let isRechargeable = (form_category f = Some RECHARGEABLE) in
      \<lparr>id_bat = or_str (form_id f) newId,
       name = or_str (form_name f) ''?'',
       brand = or_str (form_brand f) [],
       size_bat = or_str (form_size f) (or_str (form_name f) ''AA''),
       category = (case form_category f of None \<Rightarrow> PRIMARY | Some c \<Rightarrow> c),
       quantity = or_opt_num (form_quantity f) 0,
       totalQuantity =
         (if isRechargeable then or_opt_num (form_totalQuantity f) 1
          else or_opt_num (form_quantity f) 1),
       minQuantity = or_opt_num (form_minQuantity f) 0,
       inUse = (if isRechargeable then or_opt_num (form_inUse f) 0 else 0),
       usageAccumulator = or_opt_num (form_usageAccumulator f) 0,
       capacityMah =
         (if isRechargeable
          then Some (case form_capacityMah f of None \<Rightarrow> NaN | Some c \<Rightarrow> c)
          else None),
       chargeCycles =
         (if isRechargeable then Some (or_opt_num (form_chargeCycles f) 0) else None),
       lastCharged =
         (if isRechargeable then Some (or_str (form_lastCharged f) now) else None),
       chargingHistory =
         Some (case form_chargingHistory f of None \<Rightarrow> [] | Some h \<Rightarrow> h)\<rparr>)"

definition saveBattery :: "string \<Rightarrow> string \<Rightarrow> App \<Rightarrow> App" where
  "saveBattery now newId s =
     (if falsy_str (form_name (formBattery s)) then s
      else closeModal (saveToStorage (saveBattery_battery now newId (formBattery s)) s))"

section \<open>The server's upsert\<close>

text \<open>
  A row of the table \<^verbatim>\<open>batteries\<close>; the table is keyed by \<^verbatim>\<open>id\<close>, so it is a map
  from ids to rows. The history column holds the JSON text of the event list, which
  \<^verbatim>\<open>JSON.parse\<close> reads back as the list: the row keeps the list.
\<close>

record Row =
  r_name :: string
  r_brand :: string
  r_size :: string
  r_category :: BatteryCategory
  r_quantity :: int
  r_totalQuantity :: int
  r_minQuantity :: int
  r_inUse :: int
  r_usageAccumulator :: int
  r_capacityMah :: int
  r_chargeCycles :: int
  r_lastCharged :: string
  r_chargingHistory :: "ChargingEvent list"

text \<open>
  \<^verbatim>\<open>app.post('/api/batteries')\<close> on the JSON of a \<open>Battery\<close>: the status code and the
  table after the request. \<^verbatim>\<open>JSON.stringify\<close> drops an \<^verbatim>\<open>undefined\<close> field and writes
  \<^verbatim>\<open>NaN\<close> as \<^verbatim>\<open>null\<close>; \<^verbatim>\<open>Number\<close> of either, followed by \<^verbatim>\<open>|| 0\<close>, is \<open>0\<close>.
  \<^verbatim>\<open>REPLACE INTO\<close> overwrites the row with the same key. A failure of the database
  itself (status 500) is not part of the model.
\<close>

definition post_batteries :: "Battery \<Rightarrow> (string \<rightharpoonup> Row) \<Rightarrow> nat \<times> (string \<rightharpoonup> Row)" where
  "post_batteries b db =
     (if id_bat b = [] \<or> name b = [] then (400, db)
      else
        (200,
         db(id_bat b \<mapsto>
            \<lparr>r_name = name b,
             r_brand = or_str (Some (brand b)) [],
             r_size = or_str (Some (size_bat b)) (name b),
             r_category = category b,
             r_quantity = or_num (quantity b) 0,
             r_totalQuantity = or_num (totalQuantity b) 0,
             r_minQuantity = or_num (minQuantity b) 0,
             r_inUse = or_num (inUse b) 0,
             r_usageAccumulator = or_num (usageAccumulator b) 0,
             r_capacityMah =
               (case capacityMah b of None \<Rightarrow> 0 | Some NaN \<Rightarrow> 0 | Some (Num n) \<Rightarrow> or_num n 0),
             r_chargeCycles = or_opt_num (chargeCycles b) 0,
             r_lastCharged = or_str (lastCharged b) [],
             r_chargingHistory = (case chargingHistory b of None \<Rightarrow> [] | Some h \<Rightarrow> h)\<rparr>)))"

section \<open>Example inventories\<close>

text \<open>
  Concrete batteries and states, used to run the operations: a rechargeable batch of five
  with four uses accumulated, a pack of two disposable cells, and forms as a user fills them.
\<close>

definition battery0 :: Battery where
  "battery0 =
     \<lparr>id_bat = ''a'', name = ''Eneloop'', brand = ''Panasonic'', size_bat = ''AA'',
      category = RECHARGEABLE, quantity = 5, totalQuantity = 5, minQuantity = 2, inUse = 0,
      usageAccumulator = 4, capacityMah = Some (Num 1900), chargeCycles = Some 0,
      lastCharged = None, chargingHistory = Some []\<rparr>"

definition primary0 :: Battery where
  "primary0 =
     \<lparr>id_bat = ''p'', name = ''Alkaline'', brand = ''Varta'', size_bat = ''AAA'',
      category = PRIMARY, quantity = 2, totalQuantity = 2, minQuantity = 2, inUse = 0,
      usageAccumulator = 0, capacityMah = None, chargeCycles = None,
      lastCharged = None, chargingHistory = Some []\<rparr>"

definition inUse3 :: Battery where
  "inUse3 = battery0\<lparr>quantity := 2, inUse := 3\<rparr>"

definition event :: "string \<Rightarrow> int \<Rightarrow> ChargingEvent" where
  "event i n = \<lparr>id_ev = i, date = ''2024-05-01T10:00:00.000Z'', count_ev = n\<rparr>"

definition withHistory :: Battery where
  "withHistory = battery0\<lparr>chargingHistory := Some [event ''e3'' 1, event ''e2'' 4, event ''e1'' 2]\<rparr>"

definition emptyForm :: PartialBattery where
  "emptyForm =
     \<lparr>form_id = None, form_name = None, form_brand = None, form_size = None,
      form_category = None, form_quantity = None, form_totalQuantity = None,
      form_minQuantity = None, form_inUse = None, form_usageAccumulator = None,
      form_capacityMah = None, form_chargeCycles = None, form_lastCharged = None,
      form_chargingHistory = None\<rparr>"

definition appWith :: "Battery list \<Rightarrow> App" where
  "appWith bs =
     \<lparr>batteries = bs, chargeModal = \<lparr>isOpen = False, batteryId = [], amount = 1\<rparr>,
      formBattery = emptyForm, isModalOpen = False, isEditMode = False\<rparr>"

definition chargeApp :: "Battery list \<Rightarrow> string \<Rightarrow> int \<Rightarrow> App" where
  "chargeApp bs i n = (appWith bs)\<lparr>chargeModal := \<lparr>isOpen = True, batteryId = i, amount = n\<rparr>\<rparr>"

definition formApp :: "Battery list \<Rightarrow> PartialBattery \<Rightarrow> App" where
  "formApp bs f = (appWith bs)\<lparr>formBattery := f, isModalOpen := True\<rparr>"

definition akkuForm :: PartialBattery where
  "akkuForm = emptyForm\<lparr>form_id := Some ''a'', form_name := Some ''Eneloop'',
     form_category := Some RECHARGEABLE\<rparr>"

definition cellForm :: PartialBattery where
  "cellForm = emptyForm\<lparr>form_name := Some ''CR2032'', form_category := Some BUTTON_CELL,
     form_quantity := Some 0, form_totalQuantity := Some 0\<rparr>"

lemmas js_or = or_num_def or_opt_num_def or_str_def falsy_str_def

lemmas examples = battery0_def primary0_def emptyForm_def appWith_def chargeApp_def formApp_def

section \<open>Replace-by-id in the list\<close>

lemma findBattery_Some_id: "findBattery i bs = Some b \<Longrightarrow> id_bat b = i"
  unfolding findBattery_def by (induction bs) (auto split: if_splits)

lemma findBattery_replace_same:
  "id_bat u = i \<Longrightarrow> findBattery i bs = Some b \<Longrightarrow>
   findBattery i (map (\<lambda>x. if id_bat x = i then u else x) bs) = Some u"
  unfolding findBattery_def by (induction bs) (auto split: if_splits)

lemma findBattery_replace_other:
  "id_bat u = i \<Longrightarrow> j \<noteq> i \<Longrightarrow>
   findBattery j (map (\<lambda>x. if id_bat x = i then u else x) bs) = findBattery j bs"
  unfolding findBattery_def by (induction bs) auto

lemma findBattery_append_new:
  "findBattery i bs = None \<Longrightarrow> findBattery j (bs @ [u]) =
     (if j = i then (if id_bat u = i then Some u else None)
      else (case findBattery j bs of Some b \<Rightarrow> Some b
            | None \<Rightarrow> if id_bat u = j then Some u else None))"
  unfolding findBattery_def by (induction bs) (auto split: if_splits)

lemma saveToStorage_found:
  "findBattery i (batteries s) = Some b \<Longrightarrow> id_bat u = i \<Longrightarrow>
   findBattery i (batteries (saveToStorage u s)) = Some u"
  by (simp add: saveToStorage_def findBattery_replace_same)

lemma saveToStorage_other:
  "findBattery i (batteries s) = Some b \<Longrightarrow> id_bat u = i \<Longrightarrow> j \<noteq> i \<Longrightarrow>
   findBattery j (batteries (saveToStorage u s)) = findBattery j (batteries s)"
  by (simp add: saveToStorage_def findBattery_replace_other)

lemma saveToStorage_fields:
  "chargeModal (saveToStorage u s) = chargeModal s"
  "formBattery (saveToStorage u s) = formBattery s"
  "isModalOpen (saveToStorage u s) = isModalOpen s"
  "isEditMode (saveToStorage u s) = isEditMode s"
  by (simp_all add: saveToStorage_def)

lemma findBattery_None_absent: "findBattery i bs = None \<Longrightarrow> i \<notin> id_bat ` set bs"
  unfolding findBattery_def by (induction bs) (auto split: if_splits)

lemma replace_absent:
  "i \<notin> id_bat ` set bs \<Longrightarrow> map (\<lambda>x. if id_bat x = i then u else x) bs = bs"
  by (induction bs) auto

lemma replace_twice:
  "id_bat u = i \<Longrightarrow>
   map (\<lambda>x. if id_bat x = i then u else x) (map (\<lambda>x. if id_bat x = i then u else x) bs) =
   map (\<lambda>x. if id_bat x = i then u else x) bs"
  by (induction bs) auto

lemma map_replace_distinct:
  "distinct (map id_bat bs) \<Longrightarrow> findBattery i bs = Some b \<Longrightarrow> f u = f b \<Longrightarrow>
   map f (map (\<lambda>x. if id_bat x = i then u else x) bs) = map f bs"
proof (induction bs)
  case Nil
  then show ?case by simp
next
  case (Cons x xs)
  show ?case
  proof (cases "id_bat x = i")
    case True
    with Cons.prems have "b = x" and "i \<notin> id_bat ` set xs"
      by (auto simp: findBattery_def)
    with True Cons.prems(3) show ?thesis by (simp add: replace_absent)
  next
    case False
    with Cons show ?thesis by (simp add: findBattery_def)
  qed
qed

lemma saveToStorage_idem: "saveToStorage u (saveToStorage u s) = saveToStorage u s"
proof (cases "findBattery (id_bat u) (batteries s)")
  case None
  then have "findBattery (id_bat u) (batteries s @ [u]) = Some u"
    by (simp add: findBattery_append_new)
  moreover have "map (\<lambda>x. if id_bat x = id_bat u then u else x) (batteries s) = batteries s"
    using None by (intro replace_absent findBattery_None_absent)
  ultimately show ?thesis using None by (simp add: saveToStorage_def)
next
  case (Some b)
  then have "findBattery (id_bat u)
      (map (\<lambda>x. if id_bat x = id_bat u then u else x) (batteries s)) = Some u"
    by (simp add: findBattery_replace_same)
  with Some show ?thesis by (simp add: saveToStorage_def replace_twice)
qed

lemma saveToStorage_batteries_cong:
  "batteries s = batteries t \<Longrightarrow> batteries (saveToStorage u s) = batteries (saveToStorage u t)"
  by (simp add: saveToStorage_def cong: option.case_cong)

lemma App_eqI:
  fixes s t :: App
  shows "batteries s = batteries t \<Longrightarrow> chargeModal s = chargeModal t \<Longrightarrow>
    formBattery s = formBattery t \<Longrightarrow> isModalOpen s = isModalOpen t \<Longrightarrow>
    isEditMode s = isEditMode t \<Longrightarrow> s = t"
  by simp

lemma closeModal_fields:
  "batteries (closeModal s) = batteries s"
  "chargeModal (closeModal s) = chargeModal s"
  "isModalOpen (closeModal s) = False"
  "isEditMode (closeModal s) = False"
  by (simp_all add: closeModal_def)

lemma closeModal_form: "formBattery (closeModal s) = formBattery (closeModal t)"
  by (simp add: closeModal_def)

lemma or_str_present: "\<not> falsy_str x \<Longrightarrow> or_str x d = the x"
  by (auto simp: falsy_str_def or_str_def split: option.splits)

lemma saveBattery_battery_indep:
  "\<not> falsy_str (form_id f) \<Longrightarrow>
   (form_category f = Some RECHARGEABLE \<longrightarrow> \<not> falsy_str (form_lastCharged f)) \<Longrightarrow>
   saveBattery_battery now2 id2 f = saveBattery_battery now1 id1 f"
  by (simp add: saveBattery_battery_def Let_def or_str_present)

lemma post_batteries_idem:
  "snd (post_batteries e (snd (post_batteries e db))) = snd (post_batteries e db)"
  by (simp add: post_batteries_def)

lemma saveBattery_battery_consumable:
  "form_category f \<noteq> Some RECHARGEABLE \<Longrightarrow>
   inUse (saveBattery_battery now newId f) = 0
   \<and> capacityMah (saveBattery_battery now newId f) = None
   \<and> chargeCycles (saveBattery_battery now newId f) = None
   \<and> lastCharged (saveBattery_battery now newId f) = None
   \<and> totalQuantity (saveBattery_battery now newId f) =
       (if quantity (saveBattery_battery now newId f) = 0 then 1
        else quantity (saveBattery_battery now newId f))"
  by (simp add: saveBattery_battery_def Let_def or_opt_num_def or_num_def split: option.splits)

section \<open>The claims\<close>

subsection \<open>C1: consuming a rechargeable unit\<close>

text \<open>
  Claim C1. For a \<open>RECHARGEABLE\<close> battery found by id with \<open>quantity > 0\<close>,
  \<open>useBattery\<close> stores the battery with \<open>quantity\<close> decreased by 1, \<open>inUse\<close>
  increased by 1 and \<open>usageAccumulator\<close> increased by 1, except that when the
  incremented accumulator reaches the batch size the accumulator becomes 0 and
  \<open>chargeCycles\<close> grows by 1; every other field keeps its value and every other battery
  is left alone. The batch size of the source is \<^verbatim>\<open>b.totalQuantity || 1\<close>:
  \<open>totalQuantity\<close>, or 1 when \<open>totalQuantity\<close> is 0. It is \<open>max totalQuantity 1\<close>
  for every \<open>totalQuantity \<ge> 0\<close>. A missing \<open>chargeCycles\<close> counts as 0 and is
  written back as a number.
\<close>

theorem useBattery_rechargeable:
  assumes "findBattery i (batteries s) = Some b"
    and "category b = RECHARGEABLE" and "0 < quantity b"
  shows "findBattery i (batteries (useBattery i s)) =
      Some (if (if totalQuantity b = 0 then 1 else totalQuantity b) \<le> usageAccumulator b + 1
            then b\<lparr>quantity := quantity b - 1, inUse := inUse b + 1,
                   usageAccumulator := 0,
                   chargeCycles := Some ((case chargeCycles b of None \<Rightarrow> 0 | Some c \<Rightarrow> c) + 1)\<rparr>
            else b\<lparr>quantity := quantity b - 1, inUse := inUse b + 1,
                   usageAccumulator := usageAccumulator b + 1,
                   chargeCycles := Some (case chargeCycles b of None \<Rightarrow> 0 | Some c \<Rightarrow> c)\<rparr>)
    \<and> (0 \<le> totalQuantity b \<longrightarrow>
         (if totalQuantity b = 0 then 1 else totalQuantity b) = max (totalQuantity b) 1)
    \<and> (\<forall>j. j \<noteq> i \<longrightarrow>
          findBattery j (batteries (useBattery i s)) = findBattery j (batteries s))"
proof -
  have idb: "id_bat b = i" using assms(1) by (rule findBattery_Some_id)
  have cyc: "or_opt_num (chargeCycles b) 0 = (case chargeCycles b of None \<Rightarrow> 0 | Some c \<Rightarrow> c)"
    by (simp add: js_or split: option.splits)
  show ?thesis
    using assms idb
    by (simp add: useBattery_def Let_def saveToStorage_found saveToStorage_other or_num_def cyc)
qed

theorem useBattery_rechargeable_witness:
  "findBattery ''a'' (batteries (appWith [battery0, primary0])) = Some battery0
   \<and> category battery0 = RECHARGEABLE \<and> 0 < quantity battery0
   \<and> 0 \<le> totalQuantity battery0
   \<and> findBattery ''a'' (batteries (useBattery ''a'' (appWith [battery0, primary0]))) =
       Some (battery0\<lparr>quantity := 4, inUse := 1, usageAccumulator := 0,
                      chargeCycles := Some 1\<rparr>)
   \<and> findBattery ''p'' (batteries (useBattery ''a'' (appWith [battery0, primary0]))) =
       Some primary0"
proof -
  have h1: "findBattery ''a'' (batteries (appWith [battery0, primary0])) = Some battery0"
    by (simp add: findBattery_def examples)
  have h2: "category battery0 = RECHARGEABLE" and h3: "0 < quantity battery0"
    by (simp_all add: examples)
  note c = useBattery_rechargeable [OF h1 h2 h3]
  have p: "findBattery ''p'' (batteries (appWith [battery0, primary0])) = Some primary0"
    by (simp add: findBattery_def examples)
  from c have "findBattery ''p'' (batteries (useBattery ''a'' (appWith [battery0, primary0]))) =
       Some primary0" using p by simp
  moreover from c have "findBattery ''a'' (batteries (useBattery ''a'' (appWith [battery0, primary0]))) =
       Some (battery0\<lparr>quantity := 4, inUse := 1, usageAccumulator := 0,
                      chargeCycles := Some 1\<rparr>)"
    by (simp add: battery0_def)
  ultimately show ?thesis using h1 h2 h3 by (simp add: battery0_def)
qed

text \<open>
  With \<open>max totalQuantity 1\<close> as the threshold the statement fails on a negative
  \<open>totalQuantity\<close>: at \<open>totalQuantity = -3\<close> and \<open>usageAccumulator = -2\<close> the
  incremented accumulator \<open>-1\<close> is below \<open>max (-3) 1 = 1\<close>, yet \<open>-1 \<ge> -3\<close> and the
  source resets the accumulator and counts a cycle.
\<close>

theorem negative_batch_counterexample:
  "category (battery0\<lparr>totalQuantity := - 3, usageAccumulator := - 2\<rparr>) = RECHARGEABLE
   \<and> 0 < quantity (battery0\<lparr>totalQuantity := - 3, usageAccumulator := - 2\<rparr>)
   \<and> - 2 + 1 < max (- 3) (1::int)
   \<and> batteries (useBattery ''a''
        (appWith [battery0\<lparr>totalQuantity := - 3, usageAccumulator := - 2\<rparr>])) =
      [battery0\<lparr>totalQuantity := - 3, quantity := 4, inUse := 1, usageAccumulator := 0,
                chargeCycles := Some 1\<rparr>]"
  by (simp add: useBattery_def findBattery_def saveToStorage_def js_or examples)

subsection \<open>C2: nothing to consume\<close>

text \<open>
  Claim C2. When the id is not in the inventory, or the battery found has
  \<open>quantity \<le> 0\<close>, \<open>useBattery\<close> returns the state it was given: no battery changes
  in any field, and the function has no failing branch on this path.
\<close>

theorem useBattery_noop:
  "findBattery i (batteries s) = None \<or>
   (\<exists>b. findBattery i (batteries s) = Some b \<and> quantity b \<le> 0) \<Longrightarrow>
   useBattery i s = s"
  by (auto simp: useBattery_def)

theorem useBattery_noop_witness:
  "findBattery ''a'' (batteries (appWith [battery0\<lparr>quantity := 0\<rparr>])) =
     Some (battery0\<lparr>quantity := 0\<rparr>)
   \<and> quantity (battery0\<lparr>quantity := 0\<rparr>) \<le> 0
   \<and> useBattery ''a'' (appWith [battery0\<lparr>quantity := 0\<rparr>]) =
       appWith [battery0\<lparr>quantity := 0\<rparr>]
   \<and> findBattery ''zz'' (batteries (appWith [battery0])) = None
   \<and> useBattery ''zz'' (appWith [battery0]) = appWith [battery0]"
proof -
  have h: "findBattery ''a'' (batteries (appWith [battery0\<lparr>quantity := 0\<rparr>])) =
      Some (battery0\<lparr>quantity := 0\<rparr>)
     \<and> quantity (battery0\<lparr>quantity := 0\<rparr>) \<le> 0"
    and n: "findBattery ''zz'' (batteries (appWith [battery0])) = None"
    by (simp_all add: findBattery_def examples)
  have c: "useBattery ''a'' (appWith [battery0\<lparr>quantity := 0\<rparr>]) =
      appWith [battery0\<lparr>quantity := 0\<rparr>]"
    by (rule useBattery_noop) (use h in blast)
  have d: "useBattery ''zz'' (appWith [battery0]) = appWith [battery0]"
    by (rule useBattery_noop) (use n in blast)
  from h n c d show ?thesis by blast
qed

subsection \<open>C3: consuming a disposable unit\<close>

text \<open>
  Claim C3. For a \<open>PRIMARY\<close> or \<open>BUTTON_CELL\<close> battery found by id with
  \<open>quantity > 0\<close>, \<open>useBattery\<close> stores the battery with \<open>quantity\<close> decreased by 1
  and \<open>totalQuantity\<close> set to \<open>max 0 (t - 1)\<close>, where \<open>t\<close> is the source's
  \<^verbatim>\<open>b.totalQuantity || b.quantity\<close>: \<open>totalQuantity\<close>, or \<open>quantity\<close> when
  \<open>totalQuantity\<close> is 0. No other field changes.
\<close>

theorem useBattery_consumable:
  assumes "findBattery i (batteries s) = Some b"
    and "category b = PRIMARY \<or> category b = BUTTON_CELL" and "0 < quantity b"
  shows "findBattery i (batteries (useBattery i s)) =
      Some (b\<lparr>quantity := quantity b - 1,
              totalQuantity :=
                max 0 ((if totalQuantity b = 0 then quantity b else totalQuantity b) - 1)\<rparr>)"
proof -
  have "id_bat b = i" using assms(1) by (rule findBattery_Some_id)
  with assms show ?thesis
    by (auto simp: useBattery_def saveToStorage_found or_num_def)
qed

theorem useBattery_consumable_witness:
  "findBattery ''p'' (batteries (appWith [battery0, primary0])) = Some primary0
   \<and> category primary0 = PRIMARY \<and> 0 < quantity primary0
   \<and> findBattery ''p'' (batteries (useBattery ''p'' (appWith [battery0, primary0]))) =
       Some (primary0\<lparr>quantity := 1, totalQuantity := 1\<rparr>)"
proof -
  have h1: "findBattery ''p'' (batteries (appWith [battery0, primary0])) = Some primary0"
    by (simp add: findBattery_def examples)
  have h2: "category primary0 = PRIMARY \<or> category primary0 = BUTTON_CELL"
    and h3: "0 < quantity primary0"
    by (simp_all add: examples)
  note c = useBattery_consumable [OF h1 h2 h3]
  from c have "findBattery ''p'' (batteries (useBattery ''p'' (appWith [battery0, primary0]))) =
       Some (primary0\<lparr>quantity := 1, totalQuantity := 1\<rparr>)"
    by (simp add: primary0_def)
  then show ?thesis using h1 h3 by (simp add: primary0_def)
qed

text \<open>
  A \<open>totalQuantity\<close> of 0 does not stay 0: it is read as unset and replaced by
  \<open>quantity\<close>, so five units with \<open>totalQuantity = 0\<close> leave \<open>totalQuantity = 4\<close>,
  where \<open>max 0 (totalQuantity - 1)\<close> is 0.
\<close>

theorem unset_total_counterexample:
  "category (primary0\<lparr>quantity := 5, totalQuantity := 0\<rparr>) = PRIMARY
   \<and> 0 < quantity (primary0\<lparr>quantity := 5, totalQuantity := 0\<rparr>)
   \<and> max 0 (totalQuantity (primary0\<lparr>quantity := 5, totalQuantity := 0\<rparr>) - 1) = 0
   \<and> batteries (useBattery ''p'' (appWith [primary0\<lparr>quantity := 5, totalQuantity := 0\<rparr>])) =
      [primary0\<lparr>quantity := 4, totalQuantity := 4\<rparr>]"
  by (simp add: useBattery_def findBattery_def saveToStorage_def js_or examples)

subsection \<open>C4: recharging\<close>

text \<open>
  Claim C4. For the battery found under the id of the charge dialog and every requested
  amount, \<open>executeCharge\<close> moves \<open>min inUse amount\<close> units: the stored battery has
  \<open>quantity\<close> increased and \<open>inUse\<close> decreased by that number, \<open>lastCharged\<close> set
  to the clock reading, and one new event with that count at the head of
  \<open>chargingHistory\<close>, the old events following in their order. When no battery has the
  id, the state is returned as it was.
\<close>

theorem executeCharge_moves:
  "(findBattery (batteryId (chargeModal s)) (batteries s) = Some b \<longrightarrow>
      findBattery (batteryId (chargeModal s)) (batteries (executeCharge now newId s)) =
        Some (b\<lparr>quantity := quantity b + min (inUse b) (amount (chargeModal s)),
                inUse := inUse b - min (inUse b) (amount (chargeModal s)),
                lastCharged := Some now,
                chargingHistory :=
                  Some (\<lparr>id_ev = newId, date = now,
                         count_ev = min (inUse b) (amount (chargeModal s))\<rparr> #
                        (case chargingHistory b of None \<Rightarrow> [] | Some h \<Rightarrow> h))\<rparr>))
   \<and> (findBattery (batteryId (chargeModal s)) (batteries s) = None \<longrightarrow>
        executeCharge now newId s = s)"
proof (intro conjI impI)
  assume f: "findBattery (batteryId (chargeModal s)) (batteries s) = Some b"
  then have "id_bat b = batteryId (chargeModal s)" by (rule findBattery_Some_id)
  with f show "findBattery (batteryId (chargeModal s)) (batteries (executeCharge now newId s)) =
        Some (b\<lparr>quantity := quantity b + min (inUse b) (amount (chargeModal s)),
                inUse := inUse b - min (inUse b) (amount (chargeModal s)),
                lastCharged := Some now,
                chargingHistory :=
                  Some (\<lparr>id_ev = newId, date = now,
                         count_ev = min (inUse b) (amount (chargeModal s))\<rparr> #
                        (case chargingHistory b of None \<Rightarrow> [] | Some h \<Rightarrow> h))\<rparr>)"
    by (simp add: executeCharge_def Let_def saveToStorage_found)
next
  assume "findBattery (batteryId (chargeModal s)) (batteries s) = None"
  then show "executeCharge now newId s = s" by (simp add: executeCharge_def)
qed

theorem executeCharge_moves_witness:
  "findBattery (batteryId (chargeModal (chargeApp [inUse3] ''a'' 10)))
     (batteries (chargeApp [inUse3] ''a'' 10)) = Some inUse3
   \<and> findBattery ''a''
       (batteries (executeCharge ''2024-06-01T08:00:00.000Z'' ''e1'' (chargeApp [inUse3] ''a'' 10))) =
       Some (inUse3\<lparr>quantity := 5, inUse := 0,
                    lastCharged := Some ''2024-06-01T08:00:00.000Z'',
                    chargingHistory :=
                      Some [\<lparr>id_ev = ''e1'', date = ''2024-06-01T08:00:00.000Z'',
                             count_ev = 3\<rparr>]\<rparr>)
   \<and> findBattery (batteryId (chargeModal (chargeApp [inUse3] ''zz'' 10)))
       (batteries (chargeApp [inUse3] ''zz'' 10)) = None
   \<and> executeCharge ''2024-06-01T08:00:00.000Z'' ''e1'' (chargeApp [inUse3] ''zz'' 10) =
       chargeApp [inUse3] ''zz'' 10"
proof -
  have h1: "findBattery (batteryId (chargeModal (chargeApp [inUse3] ''a'' 10)))
     (batteries (chargeApp [inUse3] ''a'' 10)) = Some inUse3"
    by (simp add: findBattery_def examples inUse3_def)
  have h2: "findBattery (batteryId (chargeModal (chargeApp [inUse3] ''zz'' 10)))
       (batteries (chargeApp [inUse3] ''zz'' 10)) = None"
    by (simp add: findBattery_def examples inUse3_def)
  have m: "batteryId (chargeModal (chargeApp [inUse3] ''a'' 10)) = ''a''"
    "amount (chargeModal (chargeApp [inUse3] ''a'' 10)) = 10"
    by (simp_all add: examples inUse3_def)
  from executeCharge_moves [of "chargeApp [inUse3] ''a'' 10" inUse3
      "''2024-06-01T08:00:00.000Z''" "''e1''"] h1
  have "findBattery ''a''
       (batteries (executeCharge ''2024-06-01T08:00:00.000Z'' ''e1'' (chargeApp [inUse3] ''a'' 10))) =
       Some (inUse3\<lparr>quantity := 5, inUse := 0,
                    lastCharged := Some ''2024-06-01T08:00:00.000Z'',
                    chargingHistory :=
                      Some [\<lparr>id_ev = ''e1'', date = ''2024-06-01T08:00:00.000Z'',
                             count_ev = 3\<rparr>]\<rparr>)"
    by (simp add: examples inUse3_def)
  moreover from executeCharge_moves [of "chargeApp [inUse3] ''zz'' 10" inUse3
      "''2024-06-01T08:00:00.000Z''" "''e1''"] h2
  have "executeCharge ''2024-06-01T08:00:00.000Z'' ''e1'' (chargeApp [inUse3] ''zz'' 10) =
       chargeApp [inUse3] ''zz'' 10"
    by blast
  ultimately show ?thesis using h1 h2 by blast
qed

subsection \<open>C5: recharging leaves the cycle counters alone\<close>

text \<open>
  Claim C5. \<open>executeCharge\<close> changes neither \<open>usageAccumulator\<close> nor
  \<open>chargeCycles\<close>: under every id the battery found afterwards has the values of the
  battery found before, and in an inventory with distinct ids the two columns of the whole
  list are unchanged.
\<close>

theorem executeCharge_keeps_cycle_counters:
  "(\<forall>j. map_option usageAccumulator (findBattery j (batteries (executeCharge now newId s))) =
         map_option usageAccumulator (findBattery j (batteries s))
      \<and> map_option chargeCycles (findBattery j (batteries (executeCharge now newId s))) =
         map_option chargeCycles (findBattery j (batteries s)))
   \<and> (distinct (map id_bat (batteries s)) \<longrightarrow>
        map usageAccumulator (batteries (executeCharge now newId s)) =
          map usageAccumulator (batteries s)
      \<and> map chargeCycles (batteries (executeCharge now newId s)) =
          map chargeCycles (batteries s))"
proof (cases "findBattery (batteryId (chargeModal s)) (batteries s)")
  case None
  then show ?thesis by (simp add: executeCharge_def)
next
  case (Some b)
  then have idb: "id_bat b = batteryId (chargeModal s)" by (rule findBattery_Some_id)
  have per_id: "map_option usageAccumulator (findBattery j (batteries (executeCharge now newId s))) =
         map_option usageAccumulator (findBattery j (batteries s))
      \<and> map_option chargeCycles (findBattery j (batteries (executeCharge now newId s))) =
         map_option chargeCycles (findBattery j (batteries s))" for j
    using Some idb
    by (cases "j = batteryId (chargeModal s)")
       (simp_all add: executeCharge_def Let_def saveToStorage_found saveToStorage_other)
  define u where "u = b\<lparr>quantity := quantity b + min (inUse b) (amount (chargeModal s)),
      inUse := inUse b - min (inUse b) (amount (chargeModal s)),
      lastCharged := Some now,
      chargingHistory :=
        Some (\<lparr>id_ev = newId, date = now,
               count_ev = min (inUse b) (amount (chargeModal s))\<rparr> #
              (case chargingHistory b of None \<Rightarrow> [] | Some h \<Rightarrow> h))\<rparr>"
  have after: "batteries (executeCharge now newId s) =
      map (\<lambda>x. if id_bat x = batteryId (chargeModal s) then u else x) (batteries s)"
    using Some idb by (simp add: executeCharge_def Let_def saveToStorage_def u_def)
  have whole: "map usageAccumulator (batteries (executeCharge now newId s)) =
          map usageAccumulator (batteries s)
      \<and> map chargeCycles (batteries (executeCharge now newId s)) =
          map chargeCycles (batteries s)" if d: "distinct (map id_bat (batteries s))"
  proof -
    have "usageAccumulator u = usageAccumulator b" and "chargeCycles u = chargeCycles b"
      by (simp_all add: u_def)
    then show ?thesis
      unfolding after
      using map_replace_distinct [OF d Some, of usageAccumulator u]
        map_replace_distinct [OF d Some, of chargeCycles u]
      by blast
  qed
  from per_id whole show ?thesis by blast
qed

theorem executeCharge_keeps_cycle_counters_witness:
  "distinct (map id_bat (batteries (chargeApp [inUse3, primary0] ''a'' 2)))
   \<and> map usageAccumulator
        (batteries (executeCharge ''2024-06-01T08:00:00.000Z'' ''e1''
           (chargeApp [inUse3, primary0] ''a'' 2))) = [4, 0]
   \<and> map chargeCycles
        (batteries (executeCharge ''2024-06-01T08:00:00.000Z'' ''e1''
           (chargeApp [inUse3, primary0] ''a'' 2))) = [Some 0, None]"
proof -
  have d: "distinct (map id_bat (batteries (chargeApp [inUse3, primary0] ''a'' 2)))"
    by (simp add: examples inUse3_def)
  have v: "map usageAccumulator (batteries (chargeApp [inUse3, primary0] ''a'' 2)) = [4, 0]"
    "map chargeCycles (batteries (chargeApp [inUse3, primary0] ''a'' 2)) = [Some 0, None]"
    by (simp_all add: examples inUse3_def)
  from executeCharge_keeps_cycle_counters
    [of "''2024-06-01T08:00:00.000Z''" "''e1''" "chargeApp [inUse3, primary0] ''a'' 2"] d
  have "map usageAccumulator
        (batteries (executeCharge ''2024-06-01T08:00:00.000Z'' ''e1''
           (chargeApp [inUse3, primary0] ''a'' 2))) =
        map usageAccumulator (batteries (chargeApp [inUse3, primary0] ''a'' 2))
      \<and> map chargeCycles
        (batteries (executeCharge ''2024-06-01T08:00:00.000Z'' ''e1''
           (chargeApp [inUse3, primary0] ''a'' 2))) =
        map chargeCycles (batteries (chargeApp [inUse3, primary0] ''a'' 2))"
    by blast
  with d show ?thesis by (simp only: v simp_thms)
qed

subsection \<open>C6: deleting a history entry\<close>

text \<open>
  Claim C6. \<open>deleteHistoryEntry\<close> stores the battery found by id with its
  \<open>chargingHistory\<close> filtered: the events with the given event id are gone, all others
  remain in their order, and every other field of the battery, \<open>quantity\<close>, \<open>inUse\<close>,
  \<open>usageAccumulator\<close> and \<open>chargeCycles\<close> among them, is unchanged (a battery without
  a history stays without one). Batteries under other ids are untouched, and an unknown
  battery id leaves the state as it was.
\<close>

theorem deleteHistoryEntry_ledger_only:
  "(findBattery bId (batteries s) = Some b \<longrightarrow>
      findBattery bId (batteries (deleteHistoryEntry bId eventId s)) =
        Some (b\<lparr>chargingHistory :=
                  map_option (filter (\<lambda>e. id_ev e \<noteq> eventId)) (chargingHistory b)\<rparr>))
   \<and> (\<forall>j. j \<noteq> bId \<longrightarrow>
         findBattery j (batteries (deleteHistoryEntry bId eventId s)) =
         findBattery j (batteries s))
   \<and> (findBattery bId (batteries s) = None \<longrightarrow> deleteHistoryEntry bId eventId s = s)"
proof (intro conjI impI allI)
  assume f: "findBattery bId (batteries s) = Some b"
  then have "id_bat b = bId" by (rule findBattery_Some_id)
  with f show "findBattery bId (batteries (deleteHistoryEntry bId eventId s)) =
        Some (b\<lparr>chargingHistory :=
                  map_option (filter (\<lambda>e. id_ev e \<noteq> eventId)) (chargingHistory b)\<rparr>)"
    by (cases "chargingHistory b") (simp_all add: deleteHistoryEntry_def saveToStorage_found)
next
  fix j assume j: "j \<noteq> bId"
  show "findBattery j (batteries (deleteHistoryEntry bId eventId s)) =
         findBattery j (batteries s)"
  proof (cases "findBattery bId (batteries s)")
    case None
    then show ?thesis by (simp add: deleteHistoryEntry_def)
  next
    case (Some c)
    then have "id_bat c = bId" by (rule findBattery_Some_id)
    with Some j show ?thesis
      by (cases "chargingHistory c")
         (simp_all add: deleteHistoryEntry_def saveToStorage_other)
  qed
next
  assume "findBattery bId (batteries s) = None"
  then show "deleteHistoryEntry bId eventId s = s" by (simp add: deleteHistoryEntry_def)
qed

theorem deleteHistoryEntry_ledger_only_witness:
  "findBattery ''a'' (batteries (appWith [withHistory, primary0])) = Some withHistory
   \<and> findBattery ''a''
       (batteries (deleteHistoryEntry ''a'' ''e2'' (appWith [withHistory, primary0]))) =
       Some (withHistory\<lparr>chargingHistory := Some [event ''e3'' 1, event ''e1'' 2]\<rparr>)
   \<and> ''p'' \<noteq> ''a''
   \<and> findBattery ''p''
       (batteries (deleteHistoryEntry ''a'' ''e2'' (appWith [withHistory, primary0]))) =
       Some primary0
   \<and> findBattery ''zz'' (batteries (appWith [withHistory, primary0])) = None
   \<and> deleteHistoryEntry ''zz'' ''e2'' (appWith [withHistory, primary0]) =
       appWith [withHistory, primary0]"
proof -
  have h1: "findBattery ''a'' (batteries (appWith [withHistory, primary0])) = Some withHistory"
    and h2: "findBattery ''p'' (batteries (appWith [withHistory, primary0])) = Some primary0"
    and h3: "findBattery ''zz'' (batteries (appWith [withHistory, primary0])) = None"
    by (simp_all add: findBattery_def examples withHistory_def event_def)
  have f: "map_option (filter (\<lambda>e. id_ev e \<noteq> ''e2'')) (chargingHistory withHistory) =
      Some [event ''e3'' 1, event ''e1'' 2]"
    by (simp add: examples withHistory_def event_def)
  note t = deleteHistoryEntry_ledger_only
    [of "''a''" "appWith [withHistory, primary0]" withHistory "''e2''"]
  note z = deleteHistoryEntry_ledger_only
    [of "''zz''" "appWith [withHistory, primary0]" withHistory "''e2''"]
  from t h1 f have "findBattery ''a''
       (batteries (deleteHistoryEntry ''a'' ''e2'' (appWith [withHistory, primary0]))) =
       Some (withHistory\<lparr>chargingHistory := Some [event ''e3'' 1, event ''e1'' 2]\<rparr>)"
    by simp
  moreover from t h2 have "findBattery ''p''
       (batteries (deleteHistoryEntry ''a'' ''e2'' (appWith [withHistory, primary0]))) =
       Some primary0"
    by simp
  moreover from z h3 have "deleteHistoryEntry ''zz'' ''e2'' (appWith [withHistory, primary0]) =
       appWith [withHistory, primary0]"
    by blast
  ultimately show ?thesis using h1 h3 by simp
qed

subsection \<open>C7: replaying an upsert\<close>

text \<open>
  Claim C7. Submitting the same form payload a second time yields the state of the first
  submission, for every payload that carries an id and, when its category is
  \<open>RECHARGEABLE\<close>, a \<open>lastCharged\<close> value; the clock readings and generated ids of the
  two submissions may differ. The server's replace-by-id write is idempotent for every
  payload.
\<close>

theorem saveBattery_replay:
  assumes "\<not> falsy_str (form_id (formBattery s))"
    and "form_category (formBattery s) = Some RECHARGEABLE \<longrightarrow>
         \<not> falsy_str (form_lastCharged (formBattery s))"
  shows "saveBattery now2 id2 ((saveBattery now1 id1 s)\<lparr>formBattery := formBattery s\<rparr>) =
         saveBattery now1 id1 s
     \<and> snd (post_batteries e (snd (post_batteries e db))) = snd (post_batteries e db)"
proof (cases "falsy_str (form_name (formBattery s))")
  case True
  then show ?thesis by (simp add: saveBattery_def post_batteries_idem)
next
  case False
  define u where "u = saveBattery_battery now1 id1 (formBattery s)"
  have u2: "saveBattery_battery now2 id2 (formBattery s) = u"
    unfolding u_def using assms by (rule saveBattery_battery_indep)
  have once: "saveBattery now1 id1 s = closeModal (saveToStorage u s)"
    using False by (simp add: saveBattery_def u_def)
  define s1 where "s1 = (closeModal (saveToStorage u s))\<lparr>formBattery := formBattery s\<rparr>"
  have twice: "saveBattery now2 id2 s1 = closeModal (saveToStorage u s1)"
    using False by (simp add: saveBattery_def s1_def u2)
  have bs1: "batteries s1 = batteries (saveToStorage u s)"
    by (simp add: s1_def closeModal_fields)
  have "batteries (saveToStorage u s1) = batteries (saveToStorage u (saveToStorage u s))"
    using bs1 by (rule saveToStorage_batteries_cong)
  then have b1: "batteries (saveToStorage u s1) = batteries (saveToStorage u s)"
    by (simp add: saveToStorage_idem)
  have c1: "chargeModal s1 = chargeModal s"
    by (simp add: s1_def closeModal_fields saveToStorage_fields)
  have "closeModal (saveToStorage u s1) = closeModal (saveToStorage u s)"
  proof (rule App_eqI)
    show "formBattery (closeModal (saveToStorage u s1)) =
          formBattery (closeModal (saveToStorage u s))"
      by (rule closeModal_form)
  qed (simp_all add: closeModal_fields saveToStorage_fields b1 c1)
  with once twice show ?thesis by (simp add: s1_def post_batteries_idem)
qed

theorem saveBattery_replay_witness:
  "\<not> falsy_str (form_id (formBattery
        (formApp [battery0] (akkuForm\<lparr>form_lastCharged := Some ''2024-05-01T10:00:00.000Z''\<rparr>))))
   \<and> \<not> falsy_str (form_lastCharged (formBattery
        (formApp [battery0] (akkuForm\<lparr>form_lastCharged := Some ''2024-05-01T10:00:00.000Z''\<rparr>))))
   \<and> saveBattery ''2024-06-02T08:00:00.000Z'' ''n2''
        ((saveBattery ''2024-06-01T08:00:00.000Z'' ''n1''
           (formApp [battery0] (akkuForm\<lparr>form_lastCharged := Some ''2024-05-01T10:00:00.000Z''\<rparr>)))
         \<lparr>formBattery := formBattery
           (formApp [battery0] (akkuForm\<lparr>form_lastCharged := Some ''2024-05-01T10:00:00.000Z''\<rparr>))\<rparr>) =
       saveBattery ''2024-06-01T08:00:00.000Z'' ''n1''
         (formApp [battery0] (akkuForm\<lparr>form_lastCharged := Some ''2024-05-01T10:00:00.000Z''\<rparr>))"
proof -
  have h1: "\<not> falsy_str (form_id (formBattery
        (formApp [battery0] (akkuForm\<lparr>form_lastCharged := Some ''2024-05-01T10:00:00.000Z''\<rparr>))))"
    and h2: "\<not> falsy_str (form_lastCharged (formBattery
        (formApp [battery0] (akkuForm\<lparr>form_lastCharged := Some ''2024-05-01T10:00:00.000Z''\<rparr>))))"
    by (simp_all add: falsy_str_def examples akkuForm_def)
  from h2 have h2': "form_category (formBattery
        (formApp [battery0] (akkuForm\<lparr>form_lastCharged := Some ''2024-05-01T10:00:00.000Z''\<rparr>)))
       = Some RECHARGEABLE \<longrightarrow> \<not> falsy_str (form_lastCharged (formBattery
        (formApp [battery0] (akkuForm\<lparr>form_lastCharged := Some ''2024-05-01T10:00:00.000Z''\<rparr>))))"
    by blast
  from saveBattery_replay [OF h1 h2'] h1 h2 show ?thesis by blast
qed

text \<open>
  A \<open>RECHARGEABLE\<close> payload without \<open>lastCharged\<close> is stamped with the clock reading
  of each submission, so its replay at a later time stores a different entity.
\<close>

theorem restamped_lastCharged_counterexample:
  "\<not> falsy_str (form_id (formBattery (formApp [] akkuForm)))
   \<and> map lastCharged
       (batteries (saveBattery ''2024-06-01T08:00:00.000Z'' ''n1'' (formApp [] akkuForm))) =
     [Some ''2024-06-01T08:00:00.000Z'']
   \<and> map lastCharged
       (batteries (saveBattery ''2024-06-02T08:00:00.000Z'' ''n2''
          ((saveBattery ''2024-06-01T08:00:00.000Z'' ''n1'' (formApp [] akkuForm))
           \<lparr>formBattery := formBattery (formApp [] akkuForm)\<rparr>))) =
     [Some ''2024-06-02T08:00:00.000Z'']
   \<and> saveBattery ''2024-06-02T08:00:00.000Z'' ''n2''
        ((saveBattery ''2024-06-01T08:00:00.000Z'' ''n1'' (formApp [] akkuForm))
         \<lparr>formBattery := formBattery (formApp [] akkuForm)\<rparr>) \<noteq>
      saveBattery ''2024-06-01T08:00:00.000Z'' ''n1'' (formApp [] akkuForm)"
  by (simp add: saveBattery_def saveBattery_battery_def closeModal_def saveToStorage_def
      findBattery_def js_or examples akkuForm_def)

subsection \<open>C8: saving a disposable battery\<close>

text \<open>
  Claim C8, evaluated. A \<open>BUTTON_CELL\<close> form with \<open>quantity = 0\<close> is stored with
  \<open>inUse = 0\<close> and without \<open>capacityMah\<close>, \<open>chargeCycles\<close> and \<open>lastCharged\<close>,
  but with \<open>totalQuantity = 1\<close> beside \<open>quantity = 0\<close>: the source takes
  \<^verbatim>\<open>Number(formBattery.quantity || 1)\<close> for the one and
  \<^verbatim>\<open>Number(formBattery.quantity) || 0\<close> for the other. The lemma
  \<open>saveBattery_battery_consumable\<close> above gives the stored fields for every such form.
\<close>

theorem saveBattery_consumable_zero_quantity:
  "form_category cellForm = Some BUTTON_CELL \<and> form_quantity cellForm = Some 0
   \<and> batteries (saveBattery ''2024-06-01T08:00:00.000Z'' ''n1'' (formApp [] cellForm)) =
      [\<lparr>id_bat = ''n1'', name = ''CR2032'', brand = [], size_bat = ''CR2032'',
        category = BUTTON_CELL, quantity = 0, totalQuantity = 1, minQuantity = 0, inUse = 0,
        usageAccumulator = 0, capacityMah = None, chargeCycles = None, lastCharged = None,
        chargingHistory = Some []\<rparr>]"
  by (simp add: saveBattery_def saveBattery_battery_def closeModal_def saveToStorage_def
      findBattery_def js_or examples cellForm_def)

subsection \<open>C9: recharging with nothing in use\<close>

text \<open>
  Claim C9. For a battery found by id with \<open>inUse = 0\<close> and a requested amount that is
  not negative, \<open>executeCharge\<close> still stores \<open>lastCharged\<close> and puts a new event
  with count 0 at the head of \<open>chargingHistory\<close>, while \<open>quantity\<close>, \<open>inUse\<close> and
  every other field keep their values. The category is not inspected, so this holds for
  \<open>RECHARGEABLE\<close> batteries in particular.
\<close>

theorem executeCharge_nothing_in_use:
  assumes "findBattery (batteryId (chargeModal s)) (batteries s) = Some b"
    and "inUse b = 0" and "0 \<le> amount (chargeModal s)"
  shows "findBattery (batteryId (chargeModal s)) (batteries (executeCharge now newId s)) =
      Some (b\<lparr>lastCharged := Some now,
              chargingHistory :=
                Some (\<lparr>id_ev = newId, date = now, count_ev = 0\<rparr> #
                      (case chargingHistory b of None \<Rightarrow> [] | Some h \<Rightarrow> h))\<rparr>)"
proof -
  have "id_bat b = batteryId (chargeModal s)" using assms(1) by (rule findBattery_Some_id)
  with assms show ?thesis
    by (simp add: executeCharge_def Let_def saveToStorage_found)
qed

theorem executeCharge_nothing_in_use_witness:
  "findBattery (batteryId (chargeModal (chargeApp [battery0] ''a'' 1)))
     (batteries (chargeApp [battery0] ''a'' 1)) = Some battery0
   \<and> inUse battery0 = 0 \<and> 0 \<le> amount (chargeModal (chargeApp [battery0] ''a'' 1))
   \<and> findBattery ''a''
       (batteries (executeCharge ''2024-06-01T08:00:00.000Z'' ''e1'' (chargeApp [battery0] ''a'' 1))) =
       Some (battery0\<lparr>lastCharged := Some ''2024-06-01T08:00:00.000Z'',
                      chargingHistory :=
                        Some [\<lparr>id_ev = ''e1'', date = ''2024-06-01T08:00:00.000Z'',
                               count_ev = 0\<rparr>]\<rparr>)"
proof -
  have h1: "findBattery (batteryId (chargeModal (chargeApp [battery0] ''a'' 1)))
     (batteries (chargeApp [battery0] ''a'' 1)) = Some battery0"
    and h2: "inUse battery0 = 0"
    and h3: "0 \<le> amount (chargeModal (chargeApp [battery0] ''a'' 1))"
    by (simp_all add: findBattery_def examples)
  have m: "batteryId (chargeModal (chargeApp [battery0] ''a'' 1)) = ''a''"
    by (simp add: examples)
  from executeCharge_nothing_in_use [OF h1 h2 h3, of "''2024-06-01T08:00:00.000Z''" "''e1''"]
  have "findBattery ''a''
       (batteries (executeCharge ''2024-06-01T08:00:00.000Z'' ''e1'' (chargeApp [battery0] ''a'' 1))) =
       Some (battery0\<lparr>lastCharged := Some ''2024-06-01T08:00:00.000Z'',
                      chargingHistory :=
                        Some [\<lparr>id_ev = ''e1'', date = ''2024-06-01T08:00:00.000Z'',
                               count_ev = 0\<rparr>]\<rparr>)"
    by (simp add: examples)
  with h1 h2 h3 show ?thesis by blast
qed

text \<open>
  The source takes \<^verbatim>\<open>Math.min(b.inUse, amount)\<close> with no lower bound on the amount:
  for a negative amount and \<open>inUse = 0\<close> the minimum is the amount itself, so the new
  event has a negative count and units move from \<open>quantity\<close> to \<open>inUse\<close>.
\<close>

theorem negative_amount_counterexample:
  "findBattery (batteryId (chargeModal (chargeApp [battery0] ''a'' (- 2))))
     (batteries (chargeApp [battery0] ''a'' (- 2))) = Some battery0
   \<and> category battery0 = RECHARGEABLE \<and> inUse battery0 = 0 \<and> quantity battery0 = 5
   \<and> batteries (executeCharge ''2024-06-01T08:00:00.000Z'' ''e1''
        (chargeApp [battery0] ''a'' (- 2))) =
      [battery0\<lparr>quantity := 3, inUse := 2,
                lastCharged := Some ''2024-06-01T08:00:00.000Z'',
                chargingHistory :=
                  Some [\<lparr>id_ev = ''e1'', date = ''2024-06-01T08:00:00.000Z'',
                         count_ev = - 2\<rparr>]\<rparr>]"
  by (simp add: executeCharge_def findBattery_def saveToStorage_def examples)

subsection \<open>C10: the accumulator after one use\<close>

text \<open>
  Claim C10. After \<open>useBattery\<close> on a \<open>RECHARGEABLE\<close> battery with
  \<open>quantity > 0\<close> whose accumulator was at least \<open>-1\<close>, however large, the stored
  battery satisfies \<open>0 \<le> usageAccumulator < max totalQuantity 1\<close>. For a
  \<open>totalQuantity \<ge> 0\<close> and an accumulator below \<open>-1\<close> the stored accumulator is
  still negative.
\<close>

theorem useBattery_accumulator_range:
  assumes "findBattery i (batteries s) = Some b"
    and "category b = RECHARGEABLE" and "0 < quantity b"
  shows "\<exists>b'. findBattery i (batteries (useBattery i s)) = Some b'
      \<and> totalQuantity b' = totalQuantity b
      \<and> (- 1 \<le> usageAccumulator b \<longrightarrow>
           0 \<le> usageAccumulator b' \<and> usageAccumulator b' < max (totalQuantity b') 1)
      \<and> (0 \<le> totalQuantity b \<and> usageAccumulator b < - 1 \<longrightarrow>
           usageAccumulator b' < 0)"
proof -
  have "id_bat b = i" using assms(1) by (rule findBattery_Some_id)
  with assms show ?thesis
    by (auto simp: useBattery_def Let_def saveToStorage_found or_num_def)
qed

theorem useBattery_accumulator_range_witness:
  "- 1 \<le> usageAccumulator (battery0\<lparr>usageAccumulator := 40\<rparr>)
   \<and> (\<exists>b'. findBattery ''a''
          (batteries (useBattery ''a'' (appWith [battery0\<lparr>usageAccumulator := 40\<rparr>]))) = Some b'
        \<and> 0 \<le> usageAccumulator b' \<and> usageAccumulator b' < max (totalQuantity b') 1)
   \<and> 0 \<le> totalQuantity (battery0\<lparr>usageAccumulator := - 5\<rparr>)
   \<and> usageAccumulator (battery0\<lparr>usageAccumulator := - 5\<rparr>) < - 1
   \<and> (\<exists>b'. findBattery ''a''
          (batteries (useBattery ''a'' (appWith [battery0\<lparr>usageAccumulator := - 5\<rparr>]))) = Some b'
        \<and> usageAccumulator b' < 0)"
proof -
  have a1: "findBattery ''a'' (batteries (appWith [battery0\<lparr>usageAccumulator := 40\<rparr>])) =
      Some (battery0\<lparr>usageAccumulator := 40\<rparr>)"
    and a2: "category (battery0\<lparr>usageAccumulator := 40\<rparr>) = RECHARGEABLE"
    and a3: "0 < quantity (battery0\<lparr>usageAccumulator := 40\<rparr>)"
    and a4: "- 1 \<le> usageAccumulator (battery0\<lparr>usageAccumulator := 40\<rparr>)"
    by (simp_all add: findBattery_def examples)
  have b1: "findBattery ''a'' (batteries (appWith [battery0\<lparr>usageAccumulator := - 5\<rparr>])) =
      Some (battery0\<lparr>usageAccumulator := - 5\<rparr>)"
    and b2: "category (battery0\<lparr>usageAccumulator := - 5\<rparr>) = RECHARGEABLE"
    and b3: "0 < quantity (battery0\<lparr>usageAccumulator := - 5\<rparr>)"
    and b4: "0 \<le> totalQuantity (battery0\<lparr>usageAccumulator := - 5\<rparr>)
             \<and> usageAccumulator (battery0\<lparr>usageAccumulator := - 5\<rparr>) < - 1"
    by (simp_all add: findBattery_def examples)
  from useBattery_accumulator_range [OF a1 a2 a3] a4
  have "\<exists>b'. findBattery ''a''
          (batteries (useBattery ''a'' (appWith [battery0\<lparr>usageAccumulator := 40\<rparr>]))) = Some b'
        \<and> 0 \<le> usageAccumulator b' \<and> usageAccumulator b' < max (totalQuantity b') 1"
    by blast
  moreover from useBattery_accumulator_range [OF b1 b2 b3] b4
  have "\<exists>b'. findBattery ''a''
          (batteries (useBattery ''a'' (appWith [battery0\<lparr>usageAccumulator := - 5\<rparr>]))) = Some b'
        \<and> usageAccumulator b' < 0"
    by blast
  ultimately show ?thesis using a4 b4 by blast
qed

text \<open>
  The range is not restored from every starting value: an accumulator of \<open>-5\<close> in a
  batch of five becomes \<open>-4\<close>.
\<close>

theorem negative_accumulator_counterexample:
  "category (battery0\<lparr>usageAccumulator := - 5\<rparr>) = RECHARGEABLE
   \<and> 0 < quantity (battery0\<lparr>usageAccumulator := - 5\<rparr>)
   \<and> batteries (useBattery ''a'' (appWith [battery0\<lparr>usageAccumulator := - 5\<rparr>])) =
      [battery0\<lparr>quantity := 4, inUse := 1, usageAccumulator := - 4\<rparr>]
   \<and> \<not> 0 \<le> usageAccumulator (battery0\<lparr>quantity := 4, inUse := 1, usageAccumulator := - 4\<rparr>)"
  by (simp add: useBattery_def findBattery_def saveToStorage_def js_or examples)

end
